theory Spec2Isabelle
  imports Main "HOL-Library.Word" "HOL-Library.Sublist"
begin

section \<open>The chat page of RechiGPT: data model\<close>

text \<open>
  The chat page (\<^verbatim>\<open>ChatPage\<close>) keeps its state in React hooks and talks to the
  outside through \<^verbatim>\<open>localStorage\<close>, \<^verbatim>\<open>router.push\<close>, \<^verbatim>\<open>console.error\<close> and
  \<^verbatim>\<open>fetch\<close>. The embedding passes that state explicitly.

  A JavaScript string is a sequence of UTF-16 code units.
\<close>

type_synonym js_string = "16 word list"

definition utf16 :: "string \<Rightarrow> js_string" where
  \<comment> \<open>a string literal of the source (ASCII only), as code units\<close>
  "utf16 s = map of_char s"

text \<open>
  \<^verbatim>\<open>String.prototype.trim\<close> strips the code units of ECMAScript's WhiteSpace and
  LineTerminator productions from both ends.
\<close>

definition isWhiteSpace :: "16 word \<Rightarrow> bool" where
  "isWhiteSpace c \<longleftrightarrow>
     c \<in> set [0x0009, 0x000A, 0x000B, 0x000C, 0x000D, 0x0020, 0x00A0, 0x1680,
              0x2000, 0x2001, 0x2002, 0x2003, 0x2004, 0x2005, 0x2006, 0x2007,
              0x2008, 0x2009, 0x200A, 0x2028, 0x2029, 0x202F, 0x205F, 0x3000,
              0xFEFF]"

definition trim :: "js_string \<Rightarrow> js_string" where
  "trim s = rev (dropWhile isWhiteSpace (rev (dropWhile isWhiteSpace s)))"

text \<open>
  A template literal renders a non-negative integer (\<^verbatim>\<open>Date.now()\<close>, a turn id) in
  decimal.
\<close>

definition digit :: "nat \<Rightarrow> 16 word" where
  "digit d = of_nat (48 + d)"

function show_nat :: "nat \<Rightarrow> js_string" where
  "show_nat n = (if n < 10 then [digit n] else show_nat (n div 10) @ [digit (n mod 10)])"
  by pat_completeness auto
termination
  by (relation "measure (\<lambda>n. n)") auto

declare show_nat.simps [simp del]

text \<open>
  A \<^verbatim>\<open>Date\<close> object is kept as the argument its constructor was given:
  \<^verbatim>\<open>new Date()\<close> reads the local clock (milliseconds), \<^verbatim>\<open>new Date(str)\<close> parses a
  string the server sent.
\<close>

datatype js_date = DateOfClock nat | DateOfString js_string

record Message =
  id_msg :: js_string
  content :: js_string
  isUser :: bool
  timestamp :: js_date

text \<open>
  The page state: the three \<^verbatim>\<open>useState\<close> cells the claims are about, the
  authentication flag, and the effects on the environment (the storage slots, the
  navigations pushed, the lines written by \<^verbatim>\<open>console.error\<close>).
\<close>

type_synonym js_error = string

record page =
  messages :: "Message list"
  inputMessage :: js_string
  loading :: bool
  isAuthenticated :: bool
  localStorage :: "string \<rightharpoonup> js_string"
  router_pushed :: "string list"
  console_error :: "(string \<times> js_error) list"

definition getItem :: "string \<Rightarrow> page \<Rightarrow> js_string option" where
  "getItem k s = localStorage s k"

definition removeItem :: "string \<Rightarrow> page \<Rightarrow> page" where
  "removeItem k s = s\<lparr>localStorage := (localStorage s)(k := None)\<rparr>"

definition router_push :: "string \<Rightarrow> page \<Rightarrow> page" where
  "router_push p s = s\<lparr>router_pushed := router_pushed s @ [p]\<rparr>"

definition console_log_error :: "string \<Rightarrow> js_error \<Rightarrow> page \<Rightarrow> page" where
  "console_log_error label e s = s\<lparr>console_error := console_error s @ [(label, e)]\<rparr>"

subsection \<open>The network\<close>

text \<open>
  A request as \<^verbatim>\<open>fetch\<close> receives it; \<open>body\<close> is the object handed to
  \<^verbatim>\<open>JSON.stringify\<close>, kept as its list of fields.
\<close>

record request =
  url :: string
  http_method :: string
  headers :: "(string \<times> js_string) list"
  body :: "(string \<times> js_string) list option"

text \<open>
  What awaiting \<^verbatim>\<open>fetch\<close> gives: the promise rejects, or there is a response with a
  status whose \<^verbatim>\<open>json()\<close> either rejects (or yields something the code cannot walk)
  or yields the payload.
\<close>

datatype 'a json_body = JsonThrows js_error | Json 'a

datatype 'a fetch_result = FetchThrows js_error | Response nat "'a json_body"

definition response_ok :: "nat \<Rightarrow> bool" where
  "response_ok status \<longleftrightarrow> 200 \<le> status \<and> status \<le> 299"

definition bearer :: "js_string option \<Rightarrow> js_string" where
  \<comment> \<open>the template literal renders a missing token (\<^verbatim>\<open>null\<close>) as the text null\<close>
  "bearer token = utf16 ''Bearer '' @ (case token of None \<Rightarrow> utf16 ''null'' | Some t \<Rightarrow> t)"

record chat_data =
  data_response :: js_string
  data_timestamp :: js_string

record history_item =
  item_id :: nat
  item_message :: js_string
  item_response :: js_string
  item_timestamp :: js_string

section \<open>loadChatHistory\<close>

definition history_request :: "page \<Rightarrow> request" where
  "history_request s =
     (let token = getItem ''token'' s
      in \<lparr>url = ''http://localhost:8000/chat/history'', http_method = ''GET'',
          headers = [(''Authorization'', bearer token)], body = None\<rparr>)"

definition push2 :: "Message list \<Rightarrow> history_item \<Rightarrow> Message list" where
  \<comment> \<open>the body of the \<^verbatim>\<open>forEach\<close> callback: two pushes\<close>
  "push2 formattedMessages item =
     (formattedMessages
        @ [\<lparr>id_msg = utf16 ''user-'' @ show_nat (item_id item), content = item_message item,
            isUser = True, timestamp = DateOfString (item_timestamp item)\<rparr>])
        @ [\<lparr>id_msg = utf16 ''bot-'' @ show_nat (item_id item), content = item_response item,
            isUser = False, timestamp = DateOfString (item_timestamp item)\<rparr>]"

definition formatMessages :: "history_item list \<Rightarrow> Message list" where
  "formatMessages history = foldl push2 [] history"

definition loadChatHistory_settle :: "history_item list fetch_result \<Rightarrow> page \<Rightarrow> page" where
  \<comment> \<open>the continuation of \<^verbatim>\<open>loadChatHistory\<close> after \<^verbatim>\<open>await fetch\<close>\<close>
  "loadChatHistory_settle r s =
     (case r of
        FetchThrows e \<Rightarrow> console_log_error ''Failed to load chat history:'' e s
      | Response status b \<Rightarrow>
          if response_ok status then
            (case b of
               JsonThrows e \<Rightarrow> console_log_error ''Failed to load chat history:'' e s
             | Json history \<Rightarrow> s\<lparr>messages := formatMessages history\<rparr>)
          else s)"

section \<open>sendMessage\<close>

definition chat_request :: "js_string \<Rightarrow> page \<Rightarrow> request" where
  "chat_request inputMessage0 s =
     (let token = getItem ''token'' s
      in \<lparr>url = ''http://localhost:8000/chat'', http_method = ''POST'',
          headers = [(''Content-Type'', utf16 ''application/json''),
                     (''Authorization'', bearer token)],
          body = Some [(''message'', inputMessage0)]\<rparr>)"

definition sendMessage_begin :: "nat \<Rightarrow> nat \<Rightarrow> page \<Rightarrow> page \<times> request option" where
  \<comment> \<open>the synchronous part of \<^verbatim>\<open>sendMessage\<close>, up to \<^verbatim>\<open>await fetch\<close>: the state it leaves
      and the request it issues (\<open>None\<close>: it returned at the guard). \<open>now_id\<close> and
      \<open>now_ts\<close> are the two clock readings, \<^verbatim>\<open>Date.now()\<close> and \<^verbatim>\<open>new Date()\<close>.\<close>
  "sendMessage_begin now_id now_ts s =
     (if trim (inputMessage s) = [] \<or> loading s then (s, None)
      else
        let userMessage = \<lparr>id_msg = utf16 ''user-'' @ show_nat now_id,
                           content = inputMessage s, isUser = True,
                           timestamp = DateOfClock now_ts\<rparr>;
            s1 = s\<lparr>messages := messages s @ [userMessage]\<rparr>;
            s2 = s1\<lparr>inputMessage := []\<rparr>;
            s3 = s2\<lparr>loading := True\<rparr>
        in (s3, Some (chat_request (inputMessage s) s3)))"

definition sendMessage_try :: "nat \<Rightarrow> chat_data fetch_result \<Rightarrow> page \<Rightarrow> js_error + page" where
  \<comment> \<open>the rest of the \<^verbatim>\<open>try\<close> block: \<open>Inl\<close> is a throw\<close>
  "sendMessage_try now_id r s =
     (case r of
        FetchThrows e \<Rightarrow> Inl e
      | Response status b \<Rightarrow>
          if response_ok status then
            (case b of
               JsonThrows e \<Rightarrow> Inl e
             | Json data \<Rightarrow>
                 let botMessage = \<lparr>id_msg = utf16 ''bot-'' @ show_nat now_id,
                                   content = data_response data, isUser = False,
                                   timestamp = DateOfString (data_timestamp data)\<rparr>
                 in Inr (s\<lparr>messages := messages s @ [botMessage]\<rparr>))
          else if status = 401 then
            Inr (router_push ''/login'' (removeItem ''token'' s))
          else Inl ''Failed to send message'')"

definition sendMessage_catch :: "nat \<Rightarrow> nat \<Rightarrow> js_error \<Rightarrow> page \<Rightarrow> page" where
  "sendMessage_catch now_id now_ts e s =
     (let s1 = console_log_error ''Error sending message:'' e s;
          errorMessage = \<lparr>id_msg = utf16 ''error-'' @ show_nat now_id,
                            content = utf16 ''Sorry, I encountered an error. Please try again.'',
                            isUser = False, timestamp = DateOfClock now_ts\<rparr>
      in s1\<lparr>messages := messages s1 @ [errorMessage]\<rparr>)"

definition sendMessage_finally :: "page \<Rightarrow> page" where
  "sendMessage_finally s = s\<lparr>loading := False\<rparr>"

definition sendMessage_settle :: "nat \<Rightarrow> nat \<Rightarrow> chat_data fetch_result \<Rightarrow> page \<Rightarrow> page" where
  \<comment> \<open>the continuation after \<^verbatim>\<open>await fetch\<close>: try, catch, finally\<close>
  "sendMessage_settle now_id now_ts r s =
     sendMessage_finally
       (case sendMessage_try now_id r s of
          Inl e \<Rightarrow> sendMessage_catch now_id now_ts e s
        | Inr s' \<Rightarrow> s')"

definition sendMessage ::
  "nat \<Rightarrow> nat \<Rightarrow> nat \<Rightarrow> nat \<Rightarrow> chat_data fetch_result \<Rightarrow> page \<Rightarrow> page" where
  \<comment> \<open>one whole call, nothing else touching the page while the request is out\<close>
  "sendMessage t1 t2 t3 t4 r s =
     (case sendMessage_begin t1 t2 s of
        (s', None) \<Rightarrow> s'
      | (s', Some req) \<Rightarrow> sendMessage_settle t3 t4 r s')"

section \<open>The input area\<close>

text \<open>
  The props the render gives the draft \<^verbatim>\<open>Input\<close> and the send \<^verbatim>\<open>Button\<close>, and the
  handler of the input's change event.
\<close>

record Input_props =
  input_value :: js_string
  input_disabled :: bool

record Button_props =
  button_disabled :: bool

definition render_Input :: "page \<Rightarrow> Input_props" where
  "render_Input s = \<lparr>input_value = inputMessage s, input_disabled = loading s\<rparr>"

definition render_Button :: "page \<Rightarrow> Button_props" where
  "render_Button s = \<lparr>button_disabled = (loading s \<or> trim (inputMessage s) = [])\<rparr>"

definition onChange :: "js_string \<Rightarrow> page \<Rightarrow> page" where
  "onChange v s = s\<lparr>inputMessage := v\<rparr>"

definition user_types :: "js_string \<Rightarrow> page \<Rightarrow> page" where
  \<comment> \<open>the user editing the draft to \<open>v\<close>: a disabled input element takes no edit and
      fires no change event\<close>
  "user_types v s = (if input_disabled (render_Input s) then s else onChange v s)"

section \<open>Auxiliary definitions and example pages\<close>

definition entries :: "history_item \<Rightarrow> Message list" where
  \<comment> \<open>the two object literals pushed for one turn, in the order pushed\<close>
  "entries item =
     [\<lparr>id_msg = utf16 ''user-'' @ show_nat (item_id item), content = item_message item,
       isUser = True, timestamp = DateOfString (item_timestamp item)\<rparr>,
      \<lparr>id_msg = utf16 ''bot-'' @ show_nat (item_id item), content = item_response item,
       isUser = False, timestamp = DateOfString (item_timestamp item)\<rparr>]"

definition page_blank :: page where
  \<comment> \<open>a page with a draft of three spaces\<close>
  "page_blank = \<lparr>messages = [], inputMessage = utf16 ''   '', loading = False,
     isAuthenticated = True, localStorage = [''token'' \<mapsto> utf16 ''jwt''],
     router_pushed = [], console_error = []\<rparr>"

definition page_hello :: page where
  \<comment> \<open>a freshly mounted page with the draft hello\<close>
  "page_hello = \<lparr>messages = [], inputMessage = utf16 ''hello'', loading = False,
     isAuthenticated = True, localStorage = [''token'' \<mapsto> utf16 ''jwt''],
     router_pushed = [], console_error = []\<rparr>"

definition page_sending :: page where
  \<comment> \<open>a page whose send of ping is in flight\<close>
  "page_sending = \<lparr>messages = [\<lparr>id_msg = utf16 ''user-1000'', content = utf16 ''ping'',
                                 isUser = True, timestamp = DateOfClock 1001\<rparr>],
     inputMessage = [], loading = True, isAuthenticated = True,
     localStorage = [''token'' \<mapsto> utf16 ''jwt''], router_pushed = [], console_error = []\<rparr>"

definition reply_hi :: chat_data where
  "reply_hi = \<lparr>data_response = utf16 ''hi there'',
                data_timestamp = utf16 ''2024-01-01T00:00:00Z''\<rparr>"

definition turn_a :: history_item where
  "turn_a = \<lparr>item_id = 1, item_message = utf16 ''a'', item_response = utf16 ''b'',
             item_timestamp = utf16 ''2024-01-01T00:00:00Z''\<rparr>"

section \<open>Facts about the pieces\<close>

lemma all_dropWhile: "(\<forall>x \<in> set (dropWhile P xs). P x) \<longleftrightarrow> (\<forall>x \<in> set xs. P x)"
  by (induction xs) auto

lemma trim_empty_iff: "trim s = [] \<longleftrightarrow> (\<forall>c \<in> set s. isWhiteSpace c)"
  by (simp add: trim_def all_dropWhile)

lemma begin_accepted:
  assumes "trim (inputMessage s) \<noteq> []" "\<not> loading s"
  shows "sendMessage_begin t1 t2 s =
     (s\<lparr>messages := messages s @ [\<lparr>id_msg = utf16 ''user-'' @ show_nat t1,
            content = inputMessage s, isUser = True, timestamp = DateOfClock t2\<rparr>],
        inputMessage := [], loading := True\<rparr>,
      Some (chat_request (inputMessage s)
        (s\<lparr>messages := messages s @ [\<lparr>id_msg = utf16 ''user-'' @ show_nat t1,
            content = inputMessage s, isUser = True, timestamp = DateOfClock t2\<rparr>],
        inputMessage := [], loading := True\<rparr>)))"
  using assms by (simp add: sendMessage_begin_def Let_def)

lemma sendMessage_accepted:
  assumes "trim (inputMessage s) \<noteq> []" "\<not> loading s"
  shows "sendMessage t1 t2 t3 t4 r s = sendMessage_settle t3 t4 r (fst (sendMessage_begin t1 t2 s))"
  using assms by (simp add: sendMessage_def begin_accepted)

lemma not_ok_401: "\<not> response_ok 401"
  by (simp add: response_ok_def)

lemma settle_401:
  "sendMessage_settle t3 t4 (Response 401 b) s =
     s\<lparr>localStorage := (localStorage s)(''token'' := None),
       router_pushed := router_pushed s @ [''/login''], loading := False\<rparr>"
  by (simp add: sendMessage_settle_def sendMessage_try_def sendMessage_finally_def
      router_push_def removeItem_def not_ok_401)

lemma settle_ok:
  "response_ok status \<Longrightarrow>
   sendMessage_settle t3 t4 (Response status (Json d)) s =
     s\<lparr>messages := messages s @ [\<lparr>id_msg = utf16 ''bot-'' @ show_nat t3,
            content = data_response d, isUser = False,
            timestamp = DateOfString (data_timestamp d)\<rparr>], loading := False\<rparr>"
  by (simp add: sendMessage_settle_def sendMessage_try_def sendMessage_finally_def Let_def)

lemma settle_failed:
  assumes "r = FetchThrows e \<and> e' = e
         \<or> r = Response status (JsonThrows e) \<and> response_ok status \<and> e' = e
         \<or> r = Response status b \<and> \<not> response_ok status \<and> status \<noteq> 401
             \<and> e' = ''Failed to send message''"
  shows "sendMessage_settle t3 t4 r s =
     s\<lparr>console_error := console_error s @ [(''Error sending message:'', e')],
       messages := messages s @ [\<lparr>id_msg = utf16 ''error-'' @ show_nat t3,
            content = utf16 ''Sorry, I encountered an error. Please try again.'',
            isUser = False, timestamp = DateOfClock t4\<rparr>], loading := False\<rparr>"
  using assms
  by (auto simp: sendMessage_settle_def sendMessage_try_def sendMessage_catch_def
      sendMessage_finally_def console_log_error_def Let_def)

lemma settle_messages_cases:
  "messages (sendMessage_settle t3 t4 r s) = messages s
   \<or> (\<exists>m. \<not> isUser m \<and> messages (sendMessage_settle t3 t4 r s) = messages s @ [m])"
  by (auto simp: sendMessage_settle_def sendMessage_try_def sendMessage_catch_def
      sendMessage_finally_def router_push_def removeItem_def console_log_error_def Let_def
      split: fetch_result.splits json_body.splits)

lemma settle_loading: "loading (sendMessage_settle t3 t4 r s) = False"
  by (simp add: sendMessage_settle_def sendMessage_finally_def)

lemma foldl_push2: "foldl push2 acc history = acc @ concat (map entries history)"
  by (induction history arbitrary: acc) (simp_all add: push2_def entries_def)

lemma formatMessages_concat: "formatMessages history = concat (map entries history)"
  by (simp add: formatMessages_def foldl_push2)

lemma length_formatMessages: "length (formatMessages history) = 2 * length history"
  by (induction history) (simp_all add: formatMessages_concat entries_def)

lemma nth_formatMessages:
  "i < length history \<Longrightarrow>
     formatMessages history ! (2 * i) = entries (history ! i) ! 0
   \<and> formatMessages history ! (2 * i + 1) = entries (history ! i) ! 1"
proof (induction history arbitrary: i)
  case Nil
  then show ?case by simp
next
  case (Cons item history)
  show ?case
  proof (cases i)
    case 0
    then show ?thesis by (simp add: formatMessages_concat entries_def)
  next
    case (Suc j)
    with Cons.prems have "j < length history" by simp
    from Cons.IH [OF this] Suc show ?thesis
      by (simp add: formatMessages_concat entries_def)
  qed
qed

section \<open>The claims\<close>

text \<open>
  C1. With a draft that is not empty after trimming and no send in flight, the synchronous
  part of \<^verbatim>\<open>sendMessage\<close> appends one user entry, whose content is the draft and
  whose timestamp is the local clock, and only then issues the request, from the state that
  already holds the entry. Whatever the call's outcome, and whatever state the page is in
  when it settles, the settling step keeps every entry in place: over the whole call the
  timeline extends the old one by that user entry first, and the user entries of the
  timeline grow by exactly that one.
\<close>

theorem sendMessage_optimistic_entry:
  assumes "trim (inputMessage s) \<noteq> []" and "\<not> loading s"
  shows "messages (fst (sendMessage_begin t1 t2 s)) =
           messages s @ [\<lparr>id_msg = utf16 ''user-'' @ show_nat t1, content = inputMessage s,
                          isUser = True, timestamp = DateOfClock t2\<rparr>]
       \<and> snd (sendMessage_begin t1 t2 s) =
           Some (chat_request (inputMessage s) (fst (sendMessage_begin t1 t2 s)))
       \<and> prefix (messages s') (messages (sendMessage_settle t3 t4 r s'))
       \<and> prefix (messages s @ [\<lparr>id_msg = utf16 ''user-'' @ show_nat t1, content = inputMessage s,
                          isUser = True, timestamp = DateOfClock t2\<rparr>])
                 (messages (sendMessage t1 t2 t3 t4 r s))
       \<and> filter isUser (messages (sendMessage t1 t2 t3 t4 r s)) =
           filter isUser (messages s) @ [\<lparr>id_msg = utf16 ''user-'' @ show_nat t1,
              content = inputMessage s, isUser = True, timestamp = DateOfClock t2\<rparr>]"
proof -
  let ?u = "\<lparr>id_msg = utf16 ''user-'' @ show_nat t1, content = inputMessage s,
              isUser = True, timestamp = DateOfClock t2\<rparr>"
  let ?s3 = "s\<lparr>messages := messages s @ [?u], inputMessage := [], loading := True\<rparr>"
  have b: "sendMessage_begin t1 t2 s = (?s3, Some (chat_request (inputMessage s) ?s3))"
    using assms by (rule begin_accepted)
  have whole: "sendMessage t1 t2 t3 t4 r s = sendMessage_settle t3 t4 r ?s3"
    by (simp add: sendMessage_def b)
  have pre: "prefix (messages x) (messages (sendMessage_settle t3 t4 r x))" for x
    using settle_messages_cases [of t3 t4 r x] by auto
  have fil: "filter isUser (messages (sendMessage_settle t3 t4 r x)) = filter isUser (messages x)" for x
    using settle_messages_cases [of t3 t4 r x] by auto
  show ?thesis
    using pre [of s'] pre [of ?s3] fil [of ?s3] by (simp add: b whole)
qed

theorem sendMessage_optimistic_entry_witness:
  "trim (inputMessage page_hello) \<noteq> [] \<and> \<not> loading page_hello
   \<and> messages (fst (sendMessage_begin 1000 1001 page_hello)) =
       [\<lparr>id_msg = utf16 ''user-1000'', content = utf16 ''hello'', isUser = True,
         timestamp = DateOfClock 1001\<rparr>]
   \<and> filter isUser (messages (sendMessage 1000 1001 2000 2001 (FetchThrows ''Failed to fetch'') page_hello)) =
       [\<lparr>id_msg = utf16 ''user-1000'', content = utf16 ''hello'', isUser = True,
         timestamp = DateOfClock 1001\<rparr>]"
proof -
  have h1: "trim (inputMessage page_hello) \<noteq> []"
    by (simp add: page_hello_def utf16_def trim_def isWhiteSpace_def)
  have h2: "\<not> loading page_hello"
    by (simp add: page_hello_def)
  have n: "show_nat 1000 = utf16 ''1000''"
    by (simp add: show_nat.simps utf16_def digit_def)
  show ?thesis
    using sendMessage_optimistic_entry [OF h1 h2, of 1000 1001 page_hello 2000 2001 "FetchThrows ''Failed to fetch''"] h1 h2
    by (simp add: n page_hello_def utf16_def)
qed

text \<open>
  C2. A history load answered with a 2xx status and \<open>N\<close> turns replaces the timeline
  by \<open>2 * N\<close> entries: for the \<open>i\<close>-th turn, in the order received, a user entry
  (the turn's message, id \<^verbatim>\<open>user-{id}\<close>) at position \<open>2 * i\<close> and a bot entry
  (the turn's response, id \<^verbatim>\<open>bot-{id}\<close>) at position \<open>2 * i + 1\<close>, both with the
  turn's timestamp. The old timeline does not occur in the result.
\<close>

theorem loadChatHistory_replaces_timeline:
  assumes "response_ok status"
  shows "messages (loadChatHistory_settle (Response status (Json history)) s) = formatMessages history
       \<and> formatMessages history =
           concat (map (\<lambda>item.
             [\<lparr>id_msg = utf16 ''user-'' @ show_nat (item_id item), content = item_message item,
               isUser = True, timestamp = DateOfString (item_timestamp item)\<rparr>,
              \<lparr>id_msg = utf16 ''bot-'' @ show_nat (item_id item), content = item_response item,
               isUser = False, timestamp = DateOfString (item_timestamp item)\<rparr>]) history)
       \<and> length (formatMessages history) = 2 * length history
       \<and> (i < length history \<longrightarrow>
            formatMessages history ! (2 * i) =
              \<lparr>id_msg = utf16 ''user-'' @ show_nat (item_id (history ! i)),
               content = item_message (history ! i), isUser = True,
               timestamp = DateOfString (item_timestamp (history ! i))\<rparr>
          \<and> formatMessages history ! (2 * i + 1) =
              \<lparr>id_msg = utf16 ''bot-'' @ show_nat (item_id (history ! i)),
               content = item_response (history ! i), isUser = False,
               timestamp = DateOfString (item_timestamp (history ! i))\<rparr>)"
proof -
  have 1: "messages (loadChatHistory_settle (Response status (Json history)) s) = formatMessages history"
    using assms by (simp add: loadChatHistory_settle_def)
  have 2: "formatMessages history = concat (map entries history)"
    by (rule formatMessages_concat)
  have 3: "i < length history \<longrightarrow>
     formatMessages history ! (2 * i) = entries (history ! i) ! 0
   \<and> formatMessages history ! (2 * i + 1) = entries (history ! i) ! 1"
    using nth_formatMessages by blast
  show ?thesis
    using 1 2 3 length_formatMessages [of history]
    unfolding entries_def by simp
qed

theorem loadChatHistory_replaces_timeline_witness:
  "response_ok 200
   \<and> messages (loadChatHistory_settle (Response 200 (Json [turn_a])) page_hello) =
      [\<lparr>id_msg = utf16 ''user-1'', content = utf16 ''a'', isUser = True,
        timestamp = DateOfString (utf16 ''2024-01-01T00:00:00Z'')\<rparr>,
       \<lparr>id_msg = utf16 ''bot-1'', content = utf16 ''b'', isUser = False,
        timestamp = DateOfString (utf16 ''2024-01-01T00:00:00Z'')\<rparr>]"
proof -
  have h: "response_ok 200" by (simp add: response_ok_def)
  have n: "show_nat (Suc 0) = utf16 ''1''"
    by (simp add: show_nat.simps utf16_def digit_def)
  show ?thesis
    using loadChatHistory_replaces_timeline [OF h, of "[turn_a]" page_hello 0] h
    by (simp add: n turn_a_def utf16_def)
qed

text \<open>
  C3. When the response to a send has status 401, settling removes the token from the
  storage, pushes the navigation to \<^verbatim>\<open>/login\<close> and appends no entry: over the whole
  call the timeline grows by the optimistic user entry only.
\<close>

theorem sendMessage_unauthorized:
  assumes "trim (inputMessage s) \<noteq> []" and "\<not> loading s"
  shows "messages (sendMessage_settle t3 t4 (Response 401 b) s') = messages s'
       \<and> getItem ''token'' (sendMessage_settle t3 t4 (Response 401 b) s') = None
       \<and> router_pushed (sendMessage_settle t3 t4 (Response 401 b) s') = router_pushed s' @ [''/login'']
       \<and> messages (sendMessage t1 t2 t3 t4 (Response 401 b) s) =
           messages s @ [\<lparr>id_msg = utf16 ''user-'' @ show_nat t1, content = inputMessage s,
                          isUser = True, timestamp = DateOfClock t2\<rparr>]
       \<and> getItem ''token'' (sendMessage t1 t2 t3 t4 (Response 401 b) s) = None
       \<and> router_pushed (sendMessage t1 t2 t3 t4 (Response 401 b) s) = router_pushed s @ [''/login'']"
  using assms
  by (simp add: sendMessage_accepted settle_401 getItem_def begin_accepted)

theorem sendMessage_unauthorized_witness:
  "trim (inputMessage page_hello) \<noteq> [] \<and> \<not> loading page_hello
   \<and> messages (sendMessage 1000 1001 2000 2001 (Response 401 (JsonThrows ''no body'')) page_hello) =
       [\<lparr>id_msg = utf16 ''user-1000'', content = utf16 ''hello'', isUser = True,
         timestamp = DateOfClock 1001\<rparr>]
   \<and> getItem ''token'' (sendMessage 1000 1001 2000 2001 (Response 401 (JsonThrows ''no body'')) page_hello) = None
   \<and> router_pushed (sendMessage 1000 1001 2000 2001 (Response 401 (JsonThrows ''no body'')) page_hello) = [''/login'']
   \<and> getItem ''token'' page_hello = Some (utf16 ''jwt'')"
proof -
  have h1: "trim (inputMessage page_hello) \<noteq> []"
    by (simp add: page_hello_def utf16_def trim_def isWhiteSpace_def)
  have h2: "\<not> loading page_hello"
    by (simp add: page_hello_def)
  have n: "show_nat 1000 = utf16 ''1000''"
    by (simp add: show_nat.simps utf16_def digit_def)
  show ?thesis
    using sendMessage_unauthorized [OF h1 h2, of 2000 2001 "JsonThrows ''no body''" page_hello 1000 1001] h1 h2
    by (simp add: n page_hello_def utf16_def getItem_def)
qed

text \<open>
  C4. When the fetch of a send throws (or the payload of a 2xx response cannot be read),
  or the status is neither 2xx nor 401, settling appends exactly one entry: not
  user-authored, with the fixed apology as content and the local clock as timestamp. The
  storage, the token with it, is as before, and nothing is pushed to the router.
\<close>

theorem sendMessage_failure_entry:
  assumes "r = FetchThrows e
         \<or> r = Response status (JsonThrows e) \<and> response_ok status
         \<or> r = Response status b \<and> \<not> response_ok status \<and> status \<noteq> 401"
  shows "messages (sendMessage_settle t3 t4 r s) =
           messages s @ [\<lparr>id_msg = utf16 ''error-'' @ show_nat t3,
              content = utf16 ''Sorry, I encountered an error. Please try again.'',
              isUser = False, timestamp = DateOfClock t4\<rparr>]
       \<and> localStorage (sendMessage_settle t3 t4 r s) = localStorage s
       \<and> router_pushed (sendMessage_settle t3 t4 r s) = router_pushed s"
proof -
  from assms obtain e' where
    "r = FetchThrows e \<and> e' = e
         \<or> r = Response status (JsonThrows e) \<and> response_ok status \<and> e' = e
         \<or> r = Response status b \<and> \<not> response_ok status \<and> status \<noteq> 401
             \<and> e' = ''Failed to send message''"
    by blast
  from settle_failed [OF this] show ?thesis by simp
qed

theorem sendMessage_failure_entry_witness:
  "\<not> response_ok 500 \<and> (500::nat) \<noteq> 401
   \<and> messages (sendMessage_settle 2000 2001 (Response 500 (JsonThrows ''no body'')) page_sending) =
       [\<lparr>id_msg = utf16 ''user-1000'', content = utf16 ''ping'', isUser = True,
         timestamp = DateOfClock 1001\<rparr>,
        \<lparr>id_msg = utf16 ''error-2000'',
         content = utf16 ''Sorry, I encountered an error. Please try again.'',
         isUser = False, timestamp = DateOfClock 2001\<rparr>]
   \<and> getItem ''token'' (sendMessage_settle 2000 2001 (Response 500 (JsonThrows ''no body'')) page_sending)
       = Some (utf16 ''jwt'')"
proof -
  have h: "\<not> response_ok 500 \<and> (500::nat) \<noteq> 401"
    by (simp add: response_ok_def)
  have n: "show_nat 2000 = utf16 ''2000''"
    by (simp add: show_nat.simps utf16_def digit_def)
  show ?thesis
    using sendMessage_failure_entry [of "Response 500 (JsonThrows ''no body'')" "''''" 500
        "JsonThrows ''no body''" 2000 2001 page_sending] h
    by (simp add: n page_sending_def utf16_def getItem_def)
qed

text \<open>
  C5. When a send is answered with a 2xx status and a payload, settling appends exactly one
  bot entry with the payload's response as content and the payload's timestamp (not the
  clock) as timestamp; over the whole call it comes right after the optimistic user entry.
\<close>

theorem sendMessage_success_entry:
  assumes "response_ok status" and "trim (inputMessage s) \<noteq> []" and "\<not> loading s"
  shows "messages (sendMessage_settle t3 t4 (Response status (Json d)) s') =
           messages s' @ [\<lparr>id_msg = utf16 ''bot-'' @ show_nat t3, content = data_response d,
                           isUser = False, timestamp = DateOfString (data_timestamp d)\<rparr>]
       \<and> messages (sendMessage t1 t2 t3 t4 (Response status (Json d)) s) =
           messages s @ [\<lparr>id_msg = utf16 ''user-'' @ show_nat t1, content = inputMessage s,
                          isUser = True, timestamp = DateOfClock t2\<rparr>,
                         \<lparr>id_msg = utf16 ''bot-'' @ show_nat t3, content = data_response d,
                           isUser = False, timestamp = DateOfString (data_timestamp d)\<rparr>]"
  using assms by (simp add: sendMessage_accepted settle_ok begin_accepted)

theorem sendMessage_success_entry_witness:
  "response_ok 200 \<and> trim (inputMessage page_hello) \<noteq> [] \<and> \<not> loading page_hello
   \<and> messages (sendMessage 1000 1001 2000 2001 (Response 200 (Json reply_hi)) page_hello) =
       [\<lparr>id_msg = utf16 ''user-1000'', content = utf16 ''hello'', isUser = True,
         timestamp = DateOfClock 1001\<rparr>,
        \<lparr>id_msg = utf16 ''bot-2000'', content = utf16 ''hi there'', isUser = False,
         timestamp = DateOfString (utf16 ''2024-01-01T00:00:00Z'')\<rparr>]"
proof -
  have h0: "response_ok 200" by (simp add: response_ok_def)
  have h1: "trim (inputMessage page_hello) \<noteq> []"
    by (simp add: page_hello_def utf16_def trim_def isWhiteSpace_def)
  have h2: "\<not> loading page_hello"
    by (simp add: page_hello_def)
  have n: "show_nat 1000 = utf16 ''1000''" "show_nat 2000 = utf16 ''2000''"
    by (simp_all add: show_nat.simps utf16_def digit_def)
  show ?thesis
    using sendMessage_success_entry [OF h0 h1 h2, of 2000 2001 reply_hi page_hello 1000 1001] h0 h1 h2
    by (simp add: n page_hello_def reply_hi_def utf16_def)
qed

text \<open>
  C6. With a draft that is empty or all whitespace, or with a send in flight,
  \<^verbatim>\<open>sendMessage\<close> does nothing: no request is issued and the page (timeline, draft,
  loading flag, storage, navigation) is the one it was called in.
\<close>

theorem sendMessage_noop:
  assumes "(\<forall>c \<in> set (inputMessage s). isWhiteSpace c) \<or> loading s"
  shows "sendMessage_begin t1 t2 s = (s, None) \<and> sendMessage t1 t2 t3 t4 r s = s"
  using assms by (auto simp: sendMessage_begin_def sendMessage_def trim_empty_iff)

theorem sendMessage_noop_witness:
  "list_all isWhiteSpace (inputMessage page_blank)
   \<and> inputMessage page_blank \<noteq> []
   \<and> sendMessage_begin 1000 1001 page_blank = (page_blank, None)
   \<and> sendMessage 1000 1001 2000 2001 (FetchThrows ''Failed to fetch'') page_blank = page_blank"
proof -
  have h: "list_all isWhiteSpace (inputMessage page_blank)"
    by (simp add: page_blank_def utf16_def isWhiteSpace_def)
  have ne: "inputMessage page_blank \<noteq> []"
    by (simp add: page_blank_def utf16_def)
  from h have "(\<forall>c \<in> set (inputMessage page_blank). isWhiteSpace c) \<or> loading page_blank"
    by (simp add: list_all_iff)
  from sendMessage_noop [OF this, of 1000 1001 2000 2001 "FetchThrows ''Failed to fetch''"] h ne
  show ?thesis by simp
qed

text \<open>
  C7. An accepted \<^verbatim>\<open>sendMessage\<close> has cleared the draft and raised the loading flag when
  it suspends on the request; when the request settles, on any outcome (payload, throw,
  failure status, 401) and from any state, the \<^verbatim>\<open>finally\<close> step leaves the loading
  flag false.
\<close>

theorem sendMessage_loading_flag:
  assumes "trim (inputMessage s) \<noteq> []" and "\<not> loading s"
  shows "inputMessage (fst (sendMessage_begin t1 t2 s)) = []
       \<and> loading (fst (sendMessage_begin t1 t2 s)) = True
       \<and> snd (sendMessage_begin t1 t2 s) \<noteq> None
       \<and> loading (sendMessage_settle t3 t4 r s') = False
       \<and> loading (sendMessage t1 t2 t3 t4 r s) = False"
  using assms by (simp add: sendMessage_accepted settle_loading begin_accepted)

theorem sendMessage_loading_flag_witness:
  "trim (inputMessage page_hello) \<noteq> [] \<and> \<not> loading page_hello
   \<and> inputMessage (fst (sendMessage_begin 1000 1001 page_hello)) = []
   \<and> loading (fst (sendMessage_begin 1000 1001 page_hello)) = True
   \<and> loading (sendMessage 1000 1001 2000 2001 (Response 401 (JsonThrows ''no body'')) page_hello) = False"
proof -
  have h1: "trim (inputMessage page_hello) \<noteq> []"
    by (simp add: page_hello_def utf16_def trim_def isWhiteSpace_def)
  have h2: "\<not> loading page_hello"
    by (simp add: page_hello_def)
  show ?thesis
    using sendMessage_loading_flag [OF h1 h2, of 1000 1001 2000 2001 "Response 401 (JsonThrows ''no body'')" page_hello] h1 h2
    by simp
qed

text \<open>
  C8. A failed history load is to leave the timeline, the router and the storage alone
  and to be logged. \<^verbatim>\<open>loadChatHistory\<close> logs in its \<^verbatim>\<open>catch\<close> block, and so a
  fetch that throws is logged; a response with a status outside 2xx skips the
  \<^verbatim>\<open>if (response.ok)\<close> block, which has no \<^verbatim>\<open>else\<close>, and never reaches the
  \<^verbatim>\<open>catch\<close>. At status 500 on a fresh page the page is left exactly as it was, so
  the timeline stays empty, nothing is pushed and the token stays, but the console stays
  empty too: the failure is not logged.
\<close>

theorem loadChatHistory_non_2xx_not_logged:
  "\<not> response_ok 500
   \<and> loadChatHistory_settle (Response 500 (JsonThrows ''no body'')) page_hello = page_hello
   \<and> console_error (loadChatHistory_settle (Response 500 (JsonThrows ''no body'')) page_hello) = []
   \<and> console_error (loadChatHistory_settle (FetchThrows ''Failed to fetch'') page_hello) =
       [(''Failed to load chat history:'', ''Failed to fetch'')]"
  by (simp add: loadChatHistory_settle_def response_ok_def page_hello_def console_log_error_def)

text \<open>
  C9. The claim has the draft editable while a send is in flight. The page renders the
  draft input with \<^verbatim>\<open>disabled={loading}\<close>: on a page with a send in flight the input is
  disabled and an edit does not reach the draft.
\<close>

theorem draft_not_editable_while_sending:
  "loading page_sending
   \<and> input_disabled (render_Input page_sending)
   \<and> inputMessage (user_types (utf16 ''x'') page_sending) \<noteq> utf16 ''x''"
  by (simp add: page_sending_def render_Input_def user_types_def utf16_def)

text \<open>
  C9, amended. While a send is in flight the draft input is rendered disabled, so the draft
  cannot be edited, the send button is rendered disabled too, and a further
  \<^verbatim>\<open>sendMessage\<close> is rejected by its guard.
\<close>

theorem input_disabled_while_sending:
  assumes "loading s"
  shows "input_disabled (render_Input s)
       \<and> user_types v s = s
       \<and> button_disabled (render_Button s)
       \<and> sendMessage_begin t1 t2 s = (s, None)"
  using assms
  by (simp add: render_Input_def render_Button_def user_types_def sendMessage_begin_def)

theorem input_disabled_while_sending_witness:
  "loading page_sending
   \<and> input_disabled (render_Input page_sending)
   \<and> user_types (utf16 ''x'') page_sending = page_sending
   \<and> button_disabled (render_Button page_sending)
   \<and> sendMessage_begin 3000 3001 page_sending = (page_sending, None)"
proof -
  have h: "loading page_sending"
    by (simp add: page_sending_def)
  from input_disabled_while_sending [OF h, of "utf16 ''x''" 3000 3001] h
  show ?thesis by simp
qed

text \<open>
  C10. The request an accepted \<^verbatim>\<open>sendMessage\<close> issues is a POST to the chat endpoint
  whose body carries, as \<^verbatim>\<open>message\<close>, exactly the content of the user entry just
  appended, which is the draft as it was at the call, although the draft of the page is
  already cleared when the request goes out.
\<close>

theorem sendMessage_payload:
  assumes "trim (inputMessage s) \<noteq> []" and "\<not> loading s"
  shows "map_option body (snd (sendMessage_begin t1 t2 s)) =
           Some (Some [(''message'', content (last (messages (fst (sendMessage_begin t1 t2 s)))))])
       \<and> content (last (messages (fst (sendMessage_begin t1 t2 s)))) = inputMessage s
       \<and> inputMessage (fst (sendMessage_begin t1 t2 s)) = []
       \<and> map_option http_method (snd (sendMessage_begin t1 t2 s)) = Some ''POST''
       \<and> map_option url (snd (sendMessage_begin t1 t2 s)) = Some ''http://localhost:8000/chat''"
  using assms by (simp add: begin_accepted chat_request_def Let_def)

theorem sendMessage_payload_witness:
  "trim (inputMessage page_hello) \<noteq> [] \<and> \<not> loading page_hello
   \<and> map_option body (snd (sendMessage_begin 1000 1001 page_hello)) =
        Some (Some [(''message'', utf16 ''hello'')])
   \<and> content (last (messages (fst (sendMessage_begin 1000 1001 page_hello)))) = utf16 ''hello''
   \<and> inputMessage (fst (sendMessage_begin 1000 1001 page_hello)) = []"
proof -
  have h1: "trim (inputMessage page_hello) \<noteq> []"
    by (simp add: page_hello_def utf16_def trim_def isWhiteSpace_def)
  have h2: "\<not> loading page_hello"
    by (simp add: page_hello_def)
  show ?thesis
    using sendMessage_payload [OF h1 h2, of 1000 1001] h1 h2
    by (auto simp: page_hello_def)
qed

end
